theory Spec2Isabelle
  imports Complex_Main "HOL-Library.Multiset"
begin

section \<open>Errors\<close>

text \<open>
  Exceptions of the notebook \<^verbatim>\<open>1-modeling-xgb.ipynb\<close> are values. \<open>RuntimeError\<close> carries
  its message; \<open>IndexError\<close> is what numpy raises for an index it does not accept;
  \<open>KeyError\<close> is a failed dictionary lookup; \<open>LibraryError\<close> stands for whatever the
  external estimator or the scoring function raises.
\<close>

datatype error = RuntimeError string | IndexError | KeyError string | LibraryError string

definition rbind :: "error + 'a \<Rightarrow> ('a \<Rightarrow> error + 'b) \<Rightarrow> error + 'b" where
  "rbind m f = (case m of Inl e \<Rightarrow> Inl e | Inr v \<Rightarrow> f v)"

section \<open>Cell 24: splitting the row numbers by sample key\<close>

text \<open>
  \<^verbatim>\<open>
  idx_train, idx_test = [], []
  for idx, n in enumerate(sample_key):
      if n in train_set:
          idx_train.append(idx)
      elif n in test_set:
          idx_test.append(idx)
      else:
          # This should never happen, but better safe than sorry.
          raise RuntimeError('Unknown sample key={}! Abort!'.format(sample_key[n]))
  \<close>
  The two lists are notebook globals that \<open>append\<close> mutates in place, so the loop
  threads them as a state and returns the state it stopped in together with the
  exception, if one was raised.
\<close>

record split_idx =
  idx_train :: "nat list"
  idx_test :: "nat list"

text \<open>
  \<open>sample_key[n]\<close> in the last branch indexes the array of keys with \<open>n\<close>, which is
  an element of that array: a string. \<open>sample_key\<close> is a plain one-dimensional array
  (no named fields), and numpy accepts only integers, slices, ellipsis, newaxis and
  integer or boolean arrays as indices; for a string it raises IndexError.
\<close>

definition ndarray_getitem_str :: "string list \<Rightarrow> string \<Rightarrow> error + string" where
  "ndarray_getitem_str arr key = Inl IndexError"

fun partition_loop ::
  "string set \<Rightarrow> string set \<Rightarrow> string list \<Rightarrow> (nat \<times> string) list \<Rightarrow> split_idx
    \<Rightarrow> error option \<times> split_idx" where
  "partition_loop train_set test_set sample_key [] st = (None, st)"
| "partition_loop train_set test_set sample_key ((idx, n) # rest) st =
     (if n \<in> train_set then
        partition_loop train_set test_set sample_key rest (st\<lparr>idx_train := idx_train st @ [idx]\<rparr>)
      else if n \<in> test_set then
        partition_loop train_set test_set sample_key rest (st\<lparr>idx_test := idx_test st @ [idx]\<rparr>)
      else
        (case ndarray_getitem_str sample_key n of
           Inl e \<Rightarrow> (Some e, st)
         | Inr k \<Rightarrow> (Some (RuntimeError (''Unknown sample key='' @ k @ ''! Abort!'')), st)))"

definition cell_24 :: "string set \<Rightarrow> string set \<Rightarrow> string list \<Rightarrow> error option \<times> split_idx" where
  "cell_24 train_set test_set sample_key =
     partition_loop train_set test_set sample_key (enumerate 0 sample_key)
       \<lparr>idx_train = [], idx_test = []\<rparr>"

text \<open>
  \<open>known_prefix\<close> counts the leading keys that are in one of the two sets: the rows
  the loop gets through before it raises (all of them when no key is unknown).
\<close>

definition known_prefix :: "string set \<Rightarrow> string set \<Rightarrow> string list \<Rightarrow> nat" where
  "known_prefix train_set test_set ks = length (takeWhile (\<lambda>k. k \<in> train_set \<or> k \<in> test_set) ks)"

section \<open>Cell 25: slicing the arrays by the split indices\<close>

text \<open>
  The bundle \<^verbatim>\<open>openmic-2018.npz\<close>: \<open>X\<close> is indexed (clip, time slice, feature),
  \<open>Y_true\<close> and \<open>Y_mask\<close> are indexed (clip, class), \<open>sample_key\<close> holds one key per
  clip. An array is the list of its rows. Numbers are real: a finite float64 (or an
  8-bit feature value) is the real number it denotes, comparison of finite floats is
  the order of the reals, and sums and quotients are taken exactly. The rounding of
  float64 arithmetic is left out everywhere except in \<open>np_mean_f64\<close> below, the one
  place where the order of the additions depends on the order of the classes.
\<close>

record openmic =
  X :: "real list list list"
  Y_true :: "real list list"
  Y_mask :: "bool list list"
  sample_key :: "string list"

text \<open>
  \<^verbatim>\<open>arr[idx]\<close> for an index array \<open>idx = np.asarray(list_of_row_numbers)\<close>: the rows
  of \<open>arr\<close> at those positions. A row number outside the array raises IndexError. So
  does the empty index list: \<open>np.asarray([])\<close> is an array of float64, and numpy
  refuses an index array that is not of integer or boolean type.
\<close>

definition take_rows :: "'a list \<Rightarrow> nat list \<Rightarrow> error + 'a list" where
  "take_rows arr idx =
     (if idx = [] then Inl IndexError
      else if list_all (\<lambda>i. i < length arr) idx then Inr (map (\<lambda>i. arr ! i) idx)
      else Inl IndexError)"

record split_arrays =
  X_train :: "real list list list"
  X_test :: "real list list list"
  Y_true_train :: "real list list"
  Y_true_test :: "real list list"
  Y_mask_train :: "bool list list"
  Y_mask_test :: "bool list list"

text \<open>
  \<^verbatim>\<open>
  X_train = X[idx_train];            X_test = X[idx_test]
  Y_true_train = Y_true[idx_train];  Y_true_test = Y_true[idx_test]
  Y_mask_train = Y_mask[idx_train];  Y_mask_test = Y_mask[idx_test]
  \<close>
\<close>

definition cell_25 :: "openmic \<Rightarrow> split_idx \<Rightarrow> error + split_arrays" where
  "cell_25 data idx =
     rbind (take_rows (X data) (idx_train idx)) (\<lambda>x_train.
     rbind (take_rows (X data) (idx_test idx)) (\<lambda>x_test.
     rbind (take_rows (Y_true data) (idx_train idx)) (\<lambda>y_true_train.
     rbind (take_rows (Y_true data) (idx_test idx)) (\<lambda>y_true_test.
     rbind (take_rows (Y_mask data) (idx_train idx)) (\<lambda>y_mask_train.
     rbind (take_rows (Y_mask data) (idx_test idx)) (\<lambda>y_mask_test.
     Inr \<lparr>X_train = x_train, X_test = x_test,
          Y_true_train = y_true_train, Y_true_test = y_true_test,
          Y_mask_train = y_mask_train, Y_mask_test = y_mask_test\<rparr>))))))"

section \<open>Cell 28: one classifier per instrument\<close>

subsection \<open>The numpy operations of the loop body\<close>

text \<open>\<^verbatim>\<open>arr[:, j]\<close>: column \<open>j\<close> of a two-dimensional array; IndexError when the
  array has no such column.\<close>

definition column :: "'a list list \<Rightarrow> nat \<Rightarrow> error + 'a list" where
  "column arr j =
     (if list_all (\<lambda>row. j < length row) arr then Inr (map (\<lambda>row. row ! j) arr)
      else Inl IndexError)"

text \<open>\<^verbatim>\<open>arr[mask]\<close> for a boolean array \<open>mask\<close>: the rows of \<open>arr\<close> at the positions
  where \<open>mask\<close> is true, in order; IndexError when the lengths differ.\<close>

definition mask_rows :: "'a list \<Rightarrow> bool list \<Rightarrow> error + 'a list" where
  "mask_rows arr bmask =
     (if length bmask = length arr then Inr (map fst (filter snd (zip arr bmask)))
      else Inl IndexError)"

text \<open>\<^verbatim>\<open>arr[mask, j]\<close>: the entries of column \<open>j\<close> at the rows where \<open>mask\<close> is true.\<close>

definition mask_rows_column :: "'a list list \<Rightarrow> bool list \<Rightarrow> nat \<Rightarrow> error + 'a list" where
  "mask_rows_column arr bmask j = rbind (column arr j) (\<lambda>col. mask_rows col bmask)"

text \<open>
  \<^verbatim>\<open>np.mean(arr, axis=1)\<close> on a (rows, T, D) array: for each row the T time slices are
  added up elementwise and the sum is divided by T. (With T = 0 numpy gives a vector
  of NaN; the list of slices then no longer tells D and the model gives the empty
  vector. The bundle has T = 10.)
\<close>

definition mean_over_time :: "real list list \<Rightarrow> real list" where
  "mean_over_time slices =
     (case slices of
        [] \<Rightarrow> []
      | s # ss \<Rightarrow> map (\<lambda>v. v / real (length slices)) (foldl (map2 (+)) s ss))"

definition mean_axis1 :: "real list list list \<Rightarrow> real list list" where
  "mean_axis1 arr = map mean_over_time arr"

text \<open>\<^verbatim>\<open>labels >= 0.5\<close>, elementwise.\<close>

definition geq_half :: "real list \<Rightarrow> bool list" where
  "geq_half labels = map (\<lambda>p. p \<ge> 0.5) labels"

text \<open>
  \<^verbatim>\<open>np.mean(lst)\<close> of a list of numbers: their sum divided by their count. For the
  empty list numpy returns NaN (with a warning), which is \<open>None\<close> here.
\<close>

definition np_mean :: "real list \<Rightarrow> real option" where
  "np_mean lst = (if lst = [] then None else Some (foldl (+) 0 lst / real (length lst)))"

subsection \<open>The external collaborators\<close>

text \<open>
  The estimator and the scoring function are libraries, taken as parameters:
  \<open>xgb_fit\<close> is \<^verbatim>\<open>XGBClassifier(objective="binary:logistic", max_depth=7, random_state=42,
  n_estimators=100).fit(features, labels)\<close>, \<open>xgb_predict\<close> is the fitted model's
  \<open>predict\<close>, and \<open>prfs\<close> is
  \<^verbatim>\<open>precision_recall_fscore_support(y_true, y_pred, average='macro')\<close>, which returns
  precision, recall, F-score and support. Each may raise.
\<close>

record ('m, 's) library =
  xgb_fit :: "real list list \<Rightarrow> bool list \<Rightarrow> error + 'm"
  xgb_predict :: "'m \<Rightarrow> real list list \<Rightarrow> error + bool list"
  prfs :: "bool list \<Rightarrow> bool list \<Rightarrow> error + (real \<times> real \<times> real \<times> 's)"

subsection \<open>The loop body\<close>

text \<open>
  Steps 1 and 2 of the body for one column \<open>inst_num\<close>: the annotated rows of each
  side, their features averaged over time and their labels thresholded.
  \<^verbatim>\<open>
  train_inst = Y_mask_train[:, inst_num]
  test_inst = Y_mask_test[:, inst_num]
  X_train_inst = X_train[train_inst]
  X_train_inst_sklearn = np.mean(X_train_inst, axis=1)
  Y_true_train_inst = Y_true_train[train_inst, inst_num] >= 0.5
  X_test_inst = X_test[test_inst]
  X_test_inst_sklearn = np.mean(X_test_inst, axis=1)
  Y_true_test_inst = Y_true_test[test_inst, inst_num] >= 0.5
  \<close>
\<close>

record inst_data =
  X_train_inst_sklearn :: "real list list"
  Y_true_train_inst :: "bool list"
  X_test_inst_sklearn :: "real list list"
  Y_true_test_inst :: "bool list"

definition prepare_instrument :: "split_arrays \<Rightarrow> nat \<Rightarrow> error + inst_data" where
  "prepare_instrument arrays inst_num =
     rbind (column (Y_mask_train arrays) inst_num) (\<lambda>train_inst.
     rbind (column (Y_mask_test arrays) inst_num) (\<lambda>test_inst.
     rbind (mask_rows (X_train arrays) train_inst) (\<lambda>x_train_inst.
     rbind (mask_rows_column (Y_true_train arrays) train_inst inst_num) (\<lambda>y_train.
     rbind (mask_rows (X_test arrays) test_inst) (\<lambda>x_test_inst.
     rbind (mask_rows_column (Y_true_test arrays) test_inst inst_num) (\<lambda>y_test.
     Inr \<lparr>X_train_inst_sklearn = mean_axis1 x_train_inst,
          Y_true_train_inst = geq_half y_train,
          X_test_inst_sklearn = mean_axis1 x_test_inst,
          Y_true_test_inst = geq_half y_test\<rparr>))))))"

text \<open>
  Steps 3 to 5: fit on the training side, predict both sides, score the test side.
  \<^verbatim>\<open>
  xgb_model = xgb.XGBClassifier(...)
  xgb_model.fit(X_train_inst_sklearn, Y_true_train_inst)
  Y_pred_train = xgb_model.predict(X_train_inst_sklearn)
  Y_pred_test = xgb_model.predict(X_test_inst_sklearn)
  precision, recall, fscore, support = precision_recall_fscore_support(
      Y_true_test_inst, Y_pred_test, average='macro')
  \<close>
  The body has no \<open>try\<close>: whatever one of the calls raises leaves the loop.
\<close>

definition fit_instrument ::
  "('m, 's) library \<Rightarrow> split_arrays \<Rightarrow> nat \<Rightarrow> error + ('m \<times> real \<times> real \<times> real \<times> 's)" where
  "fit_instrument lib arrays inst_num =
     rbind (prepare_instrument arrays inst_num) (\<lambda>d.
     rbind (xgb_fit lib (X_train_inst_sklearn d) (Y_true_train_inst d)) (\<lambda>xgb_model.
     rbind (xgb_predict lib xgb_model (X_train_inst_sklearn d)) (\<lambda>y_pred_train.
     rbind (xgb_predict lib xgb_model (X_test_inst_sklearn d)) (\<lambda>y_pred_test.
     rbind (prfs lib (Y_true_test_inst d) y_pred_test) (\<lambda>(precision, recall, fscore, support).
     Inr (xgb_model, precision, recall, fscore, support))))))"

subsection \<open>The loop and the report\<close>

text \<open>
  \<^verbatim>\<open>
  models = dict()
  precision_lst = []; recall_lst = []; fscore_lst = []; support_lst = []
  for instrument in tqdm(class_map):
      inst_num = class_map[instrument]
      ...
      precision_lst = precision_lst + [precision]
      recall_lst = recall_lst + [recall]
      fscore_lst = fscore_lst + [fscore]
      models[instrument] = xgb_model
  print(f'Average Test Precision: {np.mean(precision_lst)}')
  print(f'Average Test Recall: {np.mean(recall_lst)}')
  print(f'Average Test F1 Score: {np.mean(fscore_lst)}')
  \<close>
  \<open>class_map\<close> is the dictionary read from \<^verbatim>\<open>class-map.json\<close>, an association list
  in insertion order; the loop runs over its keys. \<open>support_lst\<close> is created and never
  appended to.
\<close>

record ('m, 's) results =
  models :: "string \<rightharpoonup> 'm"
  precision_lst :: "real list"
  recall_lst :: "real list"
  fscore_lst :: "real list"
  support_lst :: "'s list"

fun instrument_loop ::
  "('m, 's) library \<Rightarrow> split_arrays \<Rightarrow> (string \<times> nat) list \<Rightarrow> string list
    \<Rightarrow> ('m, 's) results \<Rightarrow> error + ('m, 's) results" where
  "instrument_loop lib arrays class_map [] acc = Inr acc"
| "instrument_loop lib arrays class_map (instrument # rest) acc =
     (case map_of class_map instrument of
        None \<Rightarrow> Inl (KeyError instrument)
      | Some inst_num \<Rightarrow>
          (case fit_instrument lib arrays inst_num of
             Inl e \<Rightarrow> Inl e
           | Inr (xgb_model, precision, recall, fscore, support) \<Rightarrow>
               instrument_loop lib arrays class_map rest
                 (acc\<lparr>precision_lst := precision_lst acc @ [precision],
                      recall_lst := recall_lst acc @ [recall],
                      fscore_lst := fscore_lst acc @ [fscore],
                      models := (models acc)(instrument \<mapsto> xgb_model)\<rparr>)))"

text \<open>The three printed averages, in the order printed.\<close>

definition report :: "('m, 's) results \<Rightarrow> real option \<times> real option \<times> real option" where
  "report acc = (np_mean (precision_lst acc), np_mean (recall_lst acc), np_mean (fscore_lst acc))"

definition cell_28 ::
  "('m, 's) library \<Rightarrow> split_arrays \<Rightarrow> (string \<times> nat) list
    \<Rightarrow> error + (('m, 's) results \<times> real option \<times> real option \<times> real option)" where
  "cell_28 lib arrays class_map =
     rbind (instrument_loop lib arrays class_map (map fst class_map)
              \<lparr>models = Map.empty, precision_lst = [], recall_lst = [], fscore_lst = [],
               support_lst = []\<rparr>)
       (\<lambda>acc. Inr (acc, report acc))"

text \<open>The cells in order; a cell that raises stops the run.\<close>

definition notebook ::
  "('m, 's) library \<Rightarrow> openmic \<Rightarrow> (string \<times> nat) list \<Rightarrow> string set \<Rightarrow> string set
    \<Rightarrow> error + (('m, 's) results \<times> real option \<times> real option \<times> real option)" where
  "notebook lib data class_map train_set test_set =
     (case cell_24 train_set test_set (sample_key data) of
        (Some e, idx) \<Rightarrow> Inl e
      | (None, idx) \<Rightarrow> rbind (cell_25 data idx) (\<lambda>arrays. cell_28 lib arrays class_map))"

section \<open>The report in float64\<close>

text \<open>
  \<open>f64_round\<close> rounds a real number to the nearest float64, ties to the even
  significand: the number is scaled by powers of two into the range from \<open>2^52\<close> up
  to \<open>2^53\<close>, rounded to an integer there and scaled back. The fuel bounds the
  scaling steps and is more than the exponent range of float64 needs; overflow and
  subnormal numbers are not modelled (the scores are between 0 and 1).
\<close>

definition round_half_even :: "real \<Rightarrow> int" where
  "round_half_even q =
     (let f = \<lfloor>q\<rfloor> in
      if q - of_int f < 1 / 2 then f
      else if 1 / 2 < q - of_int f then f + 1
      else if even f then f else f + 1)"

fun f64_round_pos :: "nat \<Rightarrow> real \<Rightarrow> real" where
  "f64_round_pos 0 x = x"
| "f64_round_pos (Suc fuel) x =
     (if 2 ^ 53 \<le> x then 2 * f64_round_pos fuel (x / 2)
      else if x < 2 ^ 52 then f64_round_pos fuel (2 * x) / 2
      else of_int (round_half_even x))"

definition f64_round :: "real \<Rightarrow> real" where
  "f64_round x =
     (if x = 0 then 0
      else if 0 < x then f64_round_pos 1200 x
      else - f64_round_pos 1200 (- x))"

text \<open>
  \<^verbatim>\<open>np.mean(lst)\<close> with its float64 arithmetic: the numbers are added one after the
  other, each sum rounded, and the total is divided by the count and rounded. (This
  is the order numpy uses for fewer than eight numbers; it adds longer lists in
  blocks.)
\<close>

definition np_mean_f64 :: "real list \<Rightarrow> real option" where
  "np_mean_f64 lst =
     (if lst = [] then None
      else Some (f64_round (foldl (\<lambda>a b. f64_round (a + b)) 0 lst / real (length lst))))"

definition report_f64 :: "('m, 's) results \<Rightarrow> real option \<times> real option \<times> real option" where
  "report_f64 acc =
     (np_mean_f64 (precision_lst acc), np_mean_f64 (recall_lst acc), np_mean_f64 (fscore_lst acc))"

text \<open>Cell 28 with the three averages taken in float64; the loop is the same.\<close>

definition cell_28_f64 ::
  "('m, 's) library \<Rightarrow> split_arrays \<Rightarrow> (string \<times> nat) list
    \<Rightarrow> error + (('m, 's) results \<times> real option \<times> real option \<times> real option)" where
  "cell_28_f64 lib arrays class_map =
     rbind (instrument_loop lib arrays class_map (map fst class_map)
              \<lparr>models = Map.empty, precision_lst = [], recall_lst = [], fscore_lst = [],
               support_lst = []\<rparr>)
       (\<lambda>acc. Inr (acc, report_f64 acc))"

section \<open>What one instrument contributes\<close>

text \<open>
  The three scores the loop body computes for column \<open>inst_num\<close>, or \<open>None\<close> when the
  body raises.
\<close>

definition instrument_scores ::
  "('m, 's) library \<Rightarrow> split_arrays \<Rightarrow> nat \<Rightarrow> (real \<times> real \<times> real) option" where
  "instrument_scores lib arrays inst_num =
     (case fit_instrument lib arrays inst_num of
        Inl e \<Rightarrow> None
      | Inr (xgb_model, precision, recall, fscore, support) \<Rightarrow> Some (precision, recall, fscore))"

section \<open>A small bundle and stand-in libraries\<close>

text \<open>
  Concrete input for running the definitions: six clips of two time slices and two
  features, two instrument columns. Column 0 is annotated on every clip and every
  label of it is 0.9, so its binarised labels are all true; column 1 is annotated on
  four clips and has labels on both sides of the threshold, 0.5 and 0.4999 among them.
\<close>

definition demo_data :: openmic where
  "demo_data =
     \<lparr>X = [[[1, 1], [3, 3]], [[2, 4], [4, 8]], [[0, 0], [0, 2]],
           [[9, 9], [9, 9]], [[8, 8], [8, 8]], [[5, 6], [7, 8]]],
      Y_true = [[0.9, 1], [0.9, 0], [0.9, 0.5], [0.9, 0.2], [0.9, 0.9], [0.9, 0.4999]],
      Y_mask = [[True, True], [True, True], [True, True],
                [True, False], [True, False], [True, True]],
      sample_key = [''000046_3840'', ''000135_483840'', ''000139_119040'',
                    ''000141_153600'', ''000144_30720'', ''000145_172800'']\<rparr>"

definition demo_train_set :: "string set" where
  "demo_train_set = {''000046_3840'', ''000135_483840'', ''000144_30720''}"

definition demo_test_set :: "string set" where
  "demo_test_set = {''000139_119040'', ''000141_153600'', ''000145_172800''}"

definition demo_class_map :: "(string \<times> nat) list" where
  "demo_class_map = [(''accordion'', 0), (''banjo'', 1)]"

text \<open>What the cells compute on it (shown below): the split indices, the sliced
  arrays, the prepared data of column 1.\<close>

definition demo_idx :: split_idx where
  "demo_idx = \<lparr>idx_train = [0, 1, 4], idx_test = [2, 3, 5]\<rparr>"

definition demo_arrays :: split_arrays where
  "demo_arrays =
     \<lparr>X_train = [[[1, 1], [3, 3]], [[2, 4], [4, 8]], [[8, 8], [8, 8]]],
      X_test = [[[0, 0], [0, 2]], [[9, 9], [9, 9]], [[5, 6], [7, 8]]],
      Y_true_train = [[0.9, 1], [0.9, 0], [0.9, 0.9]],
      Y_true_test = [[0.9, 0.5], [0.9, 0.2], [0.9, 0.4999]],
      Y_mask_train = [[True, True], [True, True], [True, False]],
      Y_mask_test = [[True, True], [True, False], [True, True]]\<rparr>"

definition demo_inst :: inst_data where
  "demo_inst =
     \<lparr>X_train_inst_sklearn = [[2, 2], [3, 6]], Y_true_train_inst = [True, False],
      X_test_inst_sklearn = [[0, 1], [6, 7]], Y_true_test_inst = [True, False]\<rparr>"

text \<open>
  The estimator and the scoring are outside the notebook. To run the loop, two small
  libraries stand in for them. Both predict the majority label of the training labels
  and score with macro-averaged precision, recall and F-score over the labels that
  occur (a ratio with denominator zero counts as 0). \<open>strict_fit\<close> refuses training
  labels of a single class; \<open>majority_fit\<close> accepts any.
\<close>

definition majority_fit :: "real list list \<Rightarrow> bool list \<Rightarrow> error + bool" where
  "majority_fit features labels = Inr (length labels \<le> 2 * length (filter (\<lambda>l. l) labels))"

definition strict_fit :: "real list list \<Rightarrow> bool list \<Rightarrow> error + bool" where
  "strict_fit features labels =
     (if True \<in> set labels \<and> False \<in> set labels then majority_fit features labels
      else Inl (LibraryError ''fit: the labels hold a single class''))"

definition constant_predict :: "bool \<Rightarrow> real list list \<Rightarrow> error + bool list" where
  "constant_predict xgb_model features = Inr (map (\<lambda>row. xgb_model) features)"

definition label_prf :: "bool list \<Rightarrow> bool list \<Rightarrow> bool \<Rightarrow> real \<times> real \<times> real" where
  "label_prf y_true y_pred l =
     (let tp = real (length (filter (\<lambda>(t, p). t = l \<and> p = l) (zip y_true y_pred)));
          n_pred = real (length (filter (\<lambda>p. p = l) y_pred));
          n_true = real (length (filter (\<lambda>t. t = l) y_true))
      in (if n_pred = 0 then 0 else tp / n_pred,
          if n_true = 0 then 0 else tp / n_true,
          if n_pred + n_true = 0 then 0 else 2 * tp / (n_pred + n_true)))"

definition macro_prfs :: "bool list \<Rightarrow> bool list \<Rightarrow> error + (real \<times> real \<times> real \<times> unit)" where
  "macro_prfs y_true y_pred =
     (if length y_true \<noteq> length y_pred then Inl (LibraryError ''inconsistent numbers of samples'')
      else
        let ls = filter (\<lambda>l. l \<in> set y_true \<or> l \<in> set y_pred) [False, True];
            prf = map (label_prf y_true y_pred) ls;
            n = real (length ls)
        in if ls = [] then Inr (0, 0, 0, ())
           else Inr (sum_list (map fst prf) / n,
                     sum_list (map (\<lambda>x. fst (snd x)) prf) / n,
                     sum_list (map (\<lambda>x. snd (snd x)) prf) / n, ()))"

definition strict_lib :: "(bool, unit) library" where
  "strict_lib = \<lparr>xgb_fit = strict_fit, xgb_predict = constant_predict, prfs = macro_prfs\<rparr>"

definition lenient_lib :: "(bool, unit) library" where
  "lenient_lib = \<lparr>xgb_fit = majority_fit, xgb_predict = constant_predict, prfs = macro_prfs\<rparr>"

text \<open>
  The same scoring with each score rounded to float64, as a library that computes in
  float64 returns it, and the lenient library with that scoring.
\<close>

definition macro_prfs_f64 :: "bool list \<Rightarrow> bool list \<Rightarrow> error + (real \<times> real \<times> real \<times> unit)" where
  "macro_prfs_f64 y_true y_pred =
     (case macro_prfs y_true y_pred of
        Inl e \<Rightarrow> Inl e
      | Inr (precision, recall, fscore, support) \<Rightarrow>
          Inr (f64_round precision, f64_round recall, f64_round fscore, support))"

definition lenient_lib_f64 :: "(bool, unit) library" where
  "lenient_lib_f64 = \<lparr>xgb_fit = majority_fit, xgb_predict = constant_predict, prfs = macro_prfs_f64\<rparr>"

text \<open>
  Sliced arrays with three instrument columns, all annotated. Every training label is
  1; the test labels of columns 0 and 1 are all 1, those of column 2 are 1 and 0.
\<close>

definition order_arrays :: split_arrays where
  "order_arrays =
     \<lparr>X_train = [[[1]], [[2]]],
      X_test = [[[3]], [[4]]],
      Y_true_train = [[1, 1, 1], [1, 1, 1]],
      Y_true_test = [[1, 1, 1], [1, 1, 0]],
      Y_mask_train = [[True, True, True], [True, True, True]],
      Y_mask_test = [[True, True, True], [True, True, True]]\<rparr>"

definition order_class_map :: "(string \<times> nat) list" where
  "order_class_map = [(''accordion'', 0), (''banjo'', 1), (''bass'', 2)]"

text \<open>The accumulators after the loop has run over both columns with \<open>lenient_lib\<close>.\<close>

definition demo_results :: "(bool, unit) results" where
  "demo_results =
     \<lparr>models = [''accordion'' \<mapsto> True, ''banjo'' \<mapsto> True],
      precision_lst = [1, 1 / 4], recall_lst = [1, 1 / 2], fscore_lst = [1, 1 / 3],
      support_lst = []\<rparr>"

section \<open>Properties of the partition loop\<close>

lemma partition_loop_pairs:
  "partition_loop tr te sk ps st =
     (if list_all (\<lambda>p. snd p \<in> tr \<or> snd p \<in> te) ps then None else Some IndexError,
      \<lparr>idx_train = idx_train st @ map fst (filter (\<lambda>p. snd p \<in> tr) (takeWhile (\<lambda>p. snd p \<in> tr \<or> snd p \<in> te) ps)),
       idx_test = idx_test st @ map fst (filter (\<lambda>p. snd p \<notin> tr \<and> snd p \<in> te) (takeWhile (\<lambda>p. snd p \<in> tr \<or> snd p \<in> te) ps))\<rparr>)"
  by (induction ps arbitrary: st) (auto simp: ndarray_getitem_str_def)

lemma takeWhile_enumerate:
  "takeWhile (\<lambda>p. P (snd p)) (enumerate i ks) = enumerate i (takeWhile P ks)"
  by (induction ks arbitrary: i) auto

lemma filter_enumerate_fst:
  "map fst (filter (\<lambda>p. P (snd p)) (enumerate 0 ks)) = [j \<leftarrow> [0 ..< length ks]. P (ks ! j)]"
proof (induction ks rule: rev_induct)
  case Nil
  then show ?case by simp
next
  case (snoc k ks)
  have "[j \<leftarrow> [0 ..< length ks]. P ((ks @ [k]) ! j)] = [j \<leftarrow> [0 ..< length ks]. P (ks ! j)]"
    by (rule filter_cong) (auto simp: nth_append)
  with snoc show ?case
    by (simp add: enumerate_append_eq)
qed

lemma list_all_takeWhile:
  "list_all P xs = (length (takeWhile P xs) = length xs)"
proof (induction xs)
  case Nil
  then show ?case by simp
next
  case (Cons x xs)
  have "length (takeWhile P xs) \<le> length xs" by (rule length_takeWhile_le)
  with Cons show ?case by auto
qed

lemma cell_24_eq:
  "cell_24 tr te ks =
     (if known_prefix tr te ks = length ks then None else Some IndexError,
      \<lparr>idx_train = [j \<leftarrow> [0 ..< known_prefix tr te ks]. ks ! j \<in> tr],
       idx_test = [j \<leftarrow> [0 ..< known_prefix tr te ks]. ks ! j \<notin> tr \<and> ks ! j \<in> te]\<rparr>)"
proof -
  let ?K = "\<lambda>k. k \<in> tr \<or> k \<in> te"
  let ?pre = "takeWhile ?K ks"
  have tw: "takeWhile (\<lambda>p. snd p \<in> tr \<or> snd p \<in> te) (enumerate 0 ks) = enumerate 0 ?pre"
    using takeWhile_enumerate [of ?K 0 ks] by simp
  have all: "list_all (\<lambda>p. ?K (snd p)) (enumerate 0 ks) = (known_prefix tr te ks = length ks)"
    unfolding known_prefix_def list_all_takeWhile [of _ "enumerate 0 ks"] tw
    by simp
  have nth_pre: "\<And>Q. [j \<leftarrow> [0 ..< length ?pre]. Q (?pre ! j)] = [j \<leftarrow> [0 ..< length ?pre]. Q (ks ! j)]"
    by (rule filter_cong) (auto simp: takeWhile_nth)
  have tr: "map fst (filter (\<lambda>p. snd p \<in> tr) (takeWhile (\<lambda>p. ?K (snd p)) (enumerate 0 ks)))
      = [j \<leftarrow> [0 ..< known_prefix tr te ks]. ks ! j \<in> tr]"
    unfolding tw known_prefix_def
    using filter_enumerate_fst [of "\<lambda>k. k \<in> tr" ?pre] nth_pre [of "\<lambda>k. k \<in> tr"]
    by simp
  have te: "map fst (filter (\<lambda>p. snd p \<notin> tr \<and> snd p \<in> te) (takeWhile (\<lambda>p. ?K (snd p)) (enumerate 0 ks)))
      = [j \<leftarrow> [0 ..< known_prefix tr te ks]. ks ! j \<notin> tr \<and> ks ! j \<in> te]"
    unfolding tw known_prefix_def
    using filter_enumerate_fst [of "\<lambda>k. k \<notin> tr \<and> k \<in> te" ?pre]
      nth_pre [of "\<lambda>k. k \<notin> tr \<and> k \<in> te"]
    by simp
  show ?thesis
    unfolding cell_24_def partition_loop_pairs all tr te by simp
qed

lemma known_prefix_all:
  "(known_prefix tr te ks = length ks) = (set ks \<subseteq> tr \<union> te)"
  unfolding known_prefix_def list_all_takeWhile [symmetric] list_all_iff by auto

lemma known_prefix_le: "known_prefix tr te ks \<le> length ks"
  unfolding known_prefix_def by (rule length_takeWhile_le)

lemma known_prefix_gt:
  assumes "i < length ks" "set (take (Suc i) ks) \<subseteq> tr \<union> te"
  shows "i < known_prefix tr te ks"
proof (rule ccontr)
  let ?K = "\<lambda>k. k \<in> tr \<or> k \<in> te"
  assume "\<not> i < known_prefix tr te ks"
  then have le: "length (takeWhile ?K ks) \<le> i" by (simp add: known_prefix_def)
  with assms(1) have lt: "length (takeWhile ?K ks) < length ks" by simp
  then have "\<not> ?K (ks ! length (takeWhile ?K ks))" by (rule nth_length_takeWhile)
  moreover have "ks ! length (takeWhile ?K ks) \<in> set (take (Suc i) ks)"
    using le lt by (auto simp: in_set_conv_nth intro!: exI [of _ "length (takeWhile ?K ks)"])
  ultimately show False using assms(2) by auto
qed

text \<open>
  C1. When every key of the sequence is in the train set or the test set and the two
  sets are disjoint, the loop ends without an exception; \<open>idx_train\<close> is the list of
  the row numbers whose key is a train key, in row order, and \<open>idx_test\<close> likewise
  for the test keys. Both are strictly increasing, every row number below \<open>N\<close> is in
  exactly one of them, and their lengths add up to \<open>N\<close>.
\<close>

theorem partition_complete:
  assumes cover: "set ks \<subseteq> train_set \<union> test_set"
    and disjoint: "train_set \<inter> test_set = {}"
  shows "\<exists>tr te. cell_24 train_set test_set ks = (None, \<lparr>idx_train = tr, idx_test = te\<rparr>)
      \<and> tr = [i \<leftarrow> [0 ..< length ks]. ks ! i \<in> train_set]
      \<and> te = [i \<leftarrow> [0 ..< length ks]. ks ! i \<in> test_set]
      \<and> sorted_wrt (<) tr \<and> sorted_wrt (<) te
      \<and> distinct tr \<and> distinct te
      \<and> set tr \<inter> set te = {}
      \<and> set tr \<union> set te = {0 ..< length ks}
      \<and> length tr + length te = length ks"
proof -
  let ?tr = "[i \<leftarrow> [0 ..< length ks]. ks ! i \<in> train_set]"
  let ?te = "[i \<leftarrow> [0 ..< length ks]. ks ! i \<in> test_set]"
  have full: "known_prefix train_set test_set ks = length ks"
    using cover by (simp add: known_prefix_all)
  have excl: "ks ! i \<in> test_set \<longleftrightarrow> ks ! i \<notin> train_set" if "i < length ks" for i
    using that cover disjoint nth_mem [of i ks] by blast
  have te_eq: "[i \<leftarrow> [0 ..< length ks]. ks ! i \<notin> train_set \<and> ks ! i \<in> test_set] = ?te"
    by (rule filter_cong) (auto simp: excl)
  have te_neg: "?te = [i \<leftarrow> [0 ..< length ks]. \<not> ks ! i \<in> train_set]"
    by (rule filter_cong) (auto simp: excl)
  have run: "cell_24 train_set test_set ks = (None, \<lparr>idx_train = ?tr, idx_test = ?te\<rparr>)"
    unfolding cell_24_eq full te_eq by simp
  have srt: "sorted_wrt (<) ?tr" "sorted_wrt (<) ?te"
    by (simp_all add: sorted_wrt_filter)
  have dst: "distinct ?tr" "distinct ?te" by simp_all
  have inter: "set ?tr \<inter> set ?te = {}" using excl by auto
  have union: "set ?tr \<union> set ?te = {0 ..< length ks}" using excl by auto
  have len: "length ?tr + length ?te = length ks"
    unfolding te_neg using sum_length_filter_compl [of "\<lambda>i. ks ! i \<in> train_set" "[0 ..< length ks]"]
    by simp
  from run srt dst inter union len show ?thesis by blast
qed

theorem partition_complete_witness:
  "set [''000046_3840'', ''000135_483840'', ''000139_119040''] \<subseteq> {''000046_3840'', ''000139_119040''} \<union> {''000135_483840''}
   \<and> {''000046_3840'', ''000139_119040''} \<inter> {''000135_483840''} = {}
   \<and> cell_24 {''000046_3840'', ''000139_119040''} {''000135_483840''}
        [''000046_3840'', ''000135_483840'', ''000139_119040'']
      = (None, \<lparr>idx_train = [0, 2], idx_test = [1]\<rparr>)"
  using partition_complete [of "[''000046_3840'', ''000135_483840'', ''000139_119040'']"
      "{''000046_3840'', ''000139_119040''}" "{''000135_483840''}"]
  by (simp add: upt_rec_numeral)

text \<open>Whenever some key is in neither set, the exception is IndexError.\<close>

lemma unknown_key_error:
  "\<not> set ks \<subseteq> train_set \<union> test_set \<Longrightarrow> fst (cell_24 train_set test_set ks) = Some IndexError"
  unfolding cell_24_eq by (simp add: known_prefix_all)

text \<open>
  C6. A key in neither set. The branch that should raise
  \<open>RuntimeError('Unknown sample key=...')\<close> first evaluates \<open>sample_key[n]\<close> with the
  key itself as the index, and that raises IndexError: the message naming the key is
  never built. Row 0 had already been appended to \<open>idx_train\<close> when the loop stopped.
\<close>

theorem unknown_key_raises_IndexError:
  "cell_24 {''000046_3840''} {} [''000046_3840'', ''000135_483840'']
     = (Some IndexError, \<lparr>idx_train = [0], idx_test = []\<rparr>)"
  by (simp add: cell_24_def enumerate_eq_zip upt_rec_numeral ndarray_getitem_str_def)

text \<open>
  C8. A key that is in both sets is no error: at the input below, whose only key is in
  both, the loop ends without an exception.
\<close>

theorem duplicate_key_counterexample:
  "cell_24 {''000046_3840''} {''000046_3840''} [''000046_3840'']
     = (None, \<lparr>idx_train = [0], idx_test = []\<rparr>)"
  by (simp add: cell_24_def)

text \<open>
  C8, as the code has it. The loop never compares the two sets. On a sequence that
  holds a key of both sets it completes whenever every key is in at least one set,
  and the rows are split as always: a row goes to \<open>idx_train\<close> when its key is a
  train key, and to \<open>idx_test\<close> when its key is a test key and not a train key. It
  raises only when some key is in neither set.
\<close>

theorem duplicate_key_not_detected:
  assumes "k \<in> set ks" "k \<in> train_set" "k \<in> test_set"
  shows "if set ks \<subseteq> train_set \<union> test_set
         then cell_24 train_set test_set ks =
                (None, \<lparr>idx_train = [i \<leftarrow> [0 ..< length ks]. ks ! i \<in> train_set],
                        idx_test = [i \<leftarrow> [0 ..< length ks]. ks ! i \<notin> train_set \<and> ks ! i \<in> test_set]\<rparr>)
         else fst (cell_24 train_set test_set ks) \<noteq> None"
proof (cases "set ks \<subseteq> train_set \<union> test_set")
  case True
  then have "known_prefix train_set test_set ks = length ks"
    by (simp add: known_prefix_all)
  with True show ?thesis
    unfolding cell_24_eq by simp
next
  case False
  then show ?thesis
    unfolding cell_24_eq by (simp add: known_prefix_all)
qed

theorem duplicate_key_not_detected_witness:
  "''a'' \<in> set [''b'', ''a''] \<and> ''a'' \<in> {''a''} \<and> ''a'' \<in> {''a'', ''b''}
   \<and> set [''b'', ''a''] \<subseteq> {''a''} \<union> {''a'', ''b''}
   \<and> cell_24 {''a''} {''a'', ''b''} [''b'', ''a''] = (None, \<lparr>idx_train = [1], idx_test = [0]\<rparr>)"
  using duplicate_key_not_detected [of "''a''" "[''b'', ''a'']" "{''a''}" "{''a'', ''b''}"]
  by simp

text \<open>
  C10. The train set is tested first. When the key of row \<open>i\<close> is in both sets and
  every earlier key is in one of them, row \<open>i\<close> is in \<open>idx_train\<close> and not in
  \<open>idx_test\<close> when the loop stops, and the key itself raises nothing: the loop raises
  only if some key is in neither set.
\<close>

theorem overlap_goes_to_train:
  assumes "i < length ks" "ks ! i \<in> train_set" "ks ! i \<in> test_set"
    and "set (take i ks) \<subseteq> train_set \<union> test_set"
  shows "i \<in> set (idx_train (snd (cell_24 train_set test_set ks)))
     \<and> i \<notin> set (idx_test (snd (cell_24 train_set test_set ks)))
     \<and> (fst (cell_24 train_set test_set ks) = None) = (set ks \<subseteq> train_set \<union> test_set)"
proof -
  have "set (take (Suc i) ks) \<subseteq> train_set \<union> test_set"
    using assms by (simp add: take_Suc_conv_app_nth)
  then have "i < known_prefix train_set test_set ks"
    using assms(1) by (simp add: known_prefix_gt)
  then show ?thesis
    unfolding cell_24_eq using assms(2) by (simp add: known_prefix_all)
qed

theorem overlap_goes_to_train_witness:
  "(1::nat) < length [''a'', ''b'', ''zz'', ''b''] \<and> [''a'', ''b'', ''zz'', ''b''] ! 1 \<in> {''a'', ''b''}
   \<and> [''a'', ''b'', ''zz'', ''b''] ! 1 \<in> {''b''}
   \<and> set (take 1 [''a'', ''b'', ''zz'', ''b'']) \<subseteq> {''a'', ''b''} \<union> {''b''}
   \<and> 1 \<in> set (idx_train (snd (cell_24 {''a'', ''b''} {''b''} [''a'', ''b'', ''zz'', ''b''])))
   \<and> 1 \<notin> set (idx_test (snd (cell_24 {''a'', ''b''} {''b''} [''a'', ''b'', ''zz'', ''b''])))
   \<and> fst (cell_24 {''a'', ''b''} {''b''} [''a'', ''b'', ''zz'', ''b'']) \<noteq> None"
  using overlap_goes_to_train [of 1 "[''a'', ''b'', ''zz'', ''b'']" "{''a'', ''b''}" "{''b''}"]
  by simp

section \<open>The small bundle, evaluated\<close>

lemma demo_cell_24:
  "cell_24 demo_train_set demo_test_set (sample_key demo_data) = (None, demo_idx)"
  by (simp add: cell_24_def demo_data_def demo_train_set_def demo_test_set_def demo_idx_def
      enumerate_eq_zip upt_rec_numeral)

lemma demo_cell_25: "cell_25 demo_data demo_idx = Inr demo_arrays"
  by (simp add: cell_25_def take_rows_def rbind_def demo_data_def demo_idx_def demo_arrays_def)

lemma demo_prepare: "prepare_instrument demo_arrays 1 = Inr demo_inst"
  by (simp add: prepare_instrument_def column_def mask_rows_def mask_rows_column_def rbind_def
      mean_axis1_def mean_over_time_def geq_half_def demo_arrays_def demo_inst_def)

lemma demo_prepare0:
  "prepare_instrument demo_arrays 0 =
     Inr \<lparr>X_train_inst_sklearn = [[2, 2], [3, 6], [8, 8]], Y_true_train_inst = [True, True, True],
          X_test_inst_sklearn = [[0, 1], [9, 9], [6, 7]], Y_true_test_inst = [True, True, True]\<rparr>"
  by (simp add: prepare_instrument_def column_def mask_rows_def mask_rows_column_def rbind_def
      mean_axis1_def mean_over_time_def geq_half_def demo_arrays_def)

lemma demo_strict_0:
  "fit_instrument strict_lib demo_arrays 0 = Inl (LibraryError ''fit: the labels hold a single class'')"
  by (simp add: fit_instrument_def demo_prepare0 rbind_def strict_lib_def strict_fit_def)

lemma demo_lenient_0:
  "fit_instrument lenient_lib demo_arrays 0 = Inr (True, 1, 1, 1, ())"
  by (simp add: fit_instrument_def demo_prepare0 rbind_def lenient_lib_def majority_fit_def
      constant_predict_def macro_prfs_def label_prf_def)

lemma demo_lenient_1:
  "fit_instrument lenient_lib demo_arrays 1 = Inr (True, 1 / 4, 1 / 2, 1 / 3, ())"
  unfolding fit_instrument_def demo_prepare demo_inst_def
  by (simp add: rbind_def lenient_lib_def majority_fit_def constant_predict_def macro_prfs_def
      label_prf_def)

section \<open>Properties of the slicing and the preparation\<close>

lemma rbind_Inr_iff: "(rbind m f = Inr y) = (\<exists>v. m = Inr v \<and> f v = Inr y)"
  by (cases m) (simp_all add: rbind_def)

lemma take_rows_Inr:
  "take_rows arr idx = Inr rows \<Longrightarrow>
     rows = map (\<lambda>i. arr ! i) idx \<and> idx \<noteq> [] \<and> (\<forall>i \<in> set idx. i < length arr)"
  by (auto simp: take_rows_def list_all_iff split: if_splits)

lemma column_Inr:
  "column arr j = Inr col \<Longrightarrow> col = map (\<lambda>row. row ! j) arr \<and> (\<forall>row \<in> set arr. j < length row)"
  by (auto simp: column_def list_all_iff split: if_splits)

lemma mask_rows_Inr:
  "mask_rows arr bmask = Inr rows \<Longrightarrow>
     rows = map fst (filter snd (zip arr bmask)) \<and> length bmask = length arr"
  by (auto simp: mask_rows_def split: if_splits)

lemma select_zip_map:
  "map fst (filter snd (zip (map f idx) (map g idx))) = map f (filter g idx)"
  by (induction idx) auto

lemma cell_25_Inr:
  assumes "cell_25 data idx = Inr arrays"
  shows "X_train arrays = map (\<lambda>i. X data ! i) (idx_train idx)"
    and "X_test arrays = map (\<lambda>i. X data ! i) (idx_test idx)"
    and "Y_true_train arrays = map (\<lambda>i. Y_true data ! i) (idx_train idx)"
    and "Y_true_test arrays = map (\<lambda>i. Y_true data ! i) (idx_test idx)"
    and "Y_mask_train arrays = map (\<lambda>i. Y_mask data ! i) (idx_train idx)"
    and "Y_mask_test arrays = map (\<lambda>i. Y_mask data ! i) (idx_test idx)"
    and "\<forall>i \<in> set (idx_train idx) \<union> set (idx_test idx). i < length (Y_mask data)"
  using assms unfolding cell_25_def rbind_Inr_iff
  by (auto dest!: take_rows_Inr)

lemma prepare_side:
  assumes m: "ymask = map (\<lambda>i. M ! i) idx"
    and x: "xs = map (\<lambda>i. F ! i) idx"
    and y: "ys = map (\<lambda>i. L ! i) idx"
    and col: "column ymask c = Inr inst"
    and rows: "mask_rows xs inst = Inr x_inst"
    and labs: "mask_rows_column ys inst c = Inr y_inst"
  shows "x_inst = map (\<lambda>r. F ! r) [r \<leftarrow> idx. M ! r ! c]"
    and "y_inst = map (\<lambda>r. L ! r ! c) [r \<leftarrow> idx. M ! r ! c]"
    and "\<forall>r \<in> set idx. c < length (M ! r)"
proof -
  have inst: "inst = map (\<lambda>r. M ! r ! c) idx" and wide: "\<forall>row \<in> set ymask. c < length row"
    using column_Inr [OF col] by (simp_all add: m)
  show "x_inst = map (\<lambda>r. F ! r) [r \<leftarrow> idx. M ! r ! c]"
    using mask_rows_Inr [OF rows] unfolding x inst by (simp add: select_zip_map)
  obtain col' where c': "column ys c = Inr col'" and r': "mask_rows col' inst = Inr y_inst"
    using labs unfolding mask_rows_column_def rbind_Inr_iff by blast
  have "col' = map (\<lambda>r. L ! r ! c) idx"
    using column_Inr [OF c'] by (simp add: y)
  then show "y_inst = map (\<lambda>r. L ! r ! c) [r \<leftarrow> idx. M ! r ! c]"
    using mask_rows_Inr [OF r'] unfolding inst by (simp add: select_zip_map)
  show "\<forall>r \<in> set idx. c < length (M ! r)"
    using wide unfolding m by simp
qed

lemma prepare_instrument_rows:
  assumes split: "cell_25 data idx = Inr arrays"
    and prep: "prepare_instrument arrays c = Inr d"
  shows "X_train_inst_sklearn d = map (\<lambda>r. mean_over_time (X data ! r)) [r \<leftarrow> idx_train idx. Y_mask data ! r ! c]"
    and "Y_true_train_inst d = geq_half (map (\<lambda>r. Y_true data ! r ! c) [r \<leftarrow> idx_train idx. Y_mask data ! r ! c])"
    and "X_test_inst_sklearn d = map (\<lambda>r. mean_over_time (X data ! r)) [r \<leftarrow> idx_test idx. Y_mask data ! r ! c]"
    and "Y_true_test_inst d = geq_half (map (\<lambda>r. Y_true data ! r ! c) [r \<leftarrow> idx_test idx. Y_mask data ! r ! c])"
    and "\<forall>r \<in> set (idx_train idx) \<union> set (idx_test idx). r < length (Y_mask data) \<and> c < length (Y_mask data ! r)"
proof -
  from prep obtain train_inst test_inst x_train_inst y_train x_test_inst y_test where
    c1: "column (Y_mask_train arrays) c = Inr train_inst" and
    c2: "column (Y_mask_test arrays) c = Inr test_inst" and
    r1: "mask_rows (X_train arrays) train_inst = Inr x_train_inst" and
    l1: "mask_rows_column (Y_true_train arrays) train_inst c = Inr y_train" and
    r2: "mask_rows (X_test arrays) test_inst = Inr x_test_inst" and
    l2: "mask_rows_column (Y_true_test arrays) test_inst c = Inr y_test" and
    d: "d = \<lparr>X_train_inst_sklearn = mean_axis1 x_train_inst, Y_true_train_inst = geq_half y_train,
            X_test_inst_sklearn = mean_axis1 x_test_inst, Y_true_test_inst = geq_half y_test\<rparr>"
    unfolding prepare_instrument_def rbind_Inr_iff by auto
  note tr = prepare_side [OF cell_25_Inr(5) [OF split] cell_25_Inr(1) [OF split] cell_25_Inr(3) [OF split] c1 r1 l1]
  note te = prepare_side [OF cell_25_Inr(6) [OF split] cell_25_Inr(2) [OF split] cell_25_Inr(4) [OF split] c2 r2 l2]
  show "X_train_inst_sklearn d = map (\<lambda>r. mean_over_time (X data ! r)) [r \<leftarrow> idx_train idx. Y_mask data ! r ! c]"
    unfolding d using tr(1) by (simp add: mean_axis1_def comp_def)
  show "Y_true_train_inst d = geq_half (map (\<lambda>r. Y_true data ! r ! c) [r \<leftarrow> idx_train idx. Y_mask data ! r ! c])"
    unfolding d using tr(2) by simp
  show "X_test_inst_sklearn d = map (\<lambda>r. mean_over_time (X data ! r)) [r \<leftarrow> idx_test idx. Y_mask data ! r ! c]"
    unfolding d using te(1) by (simp add: mean_axis1_def comp_def)
  show "Y_true_test_inst d = geq_half (map (\<lambda>r. Y_true data ! r ! c) [r \<leftarrow> idx_test idx. Y_mask data ! r ! c])"
    unfolding d using te(2) by simp
  show "\<forall>r \<in> set (idx_train idx) \<union> set (idx_test idx). r < length (Y_mask data) \<and> c < length (Y_mask data ! r)"
    using tr(3) te(3) cell_25_Inr(7) [OF split] by auto
qed

lemma foldl_map2_add:
  fixes s :: "real list"
  assumes "\<forall>x \<in> set ss. length x = length s"
  shows "foldl (map2 (+)) s ss = map (\<lambda>k. s ! k + sum_list (map (\<lambda>x. x ! k) ss)) [0 ..< length s]"
  using assms
proof (induction ss arbitrary: s)
  case Nil
  then show ?case by (simp add: map_nth)
next
  case (Cons x ss)
  let ?s' = "map2 (+) s x"
  have len: "length ?s' = length s" using Cons.prems by simp
  have "foldl (map2 (+)) ?s' ss = map (\<lambda>k. ?s' ! k + sum_list (map (\<lambda>x. x ! k) ss)) [0 ..< length ?s']"
    using Cons.prems by (intro Cons.IH) simp
  also have "\<dots> = map (\<lambda>k. s ! k + sum_list (map (\<lambda>x. x ! k) (x # ss))) [0 ..< length s]"
    unfolding len using Cons.prems by (intro map_cong) (auto simp: add.assoc)
  finally show ?case by simp
qed

lemma mean_over_time_eq:
  assumes "slices \<noteq> []" "\<forall>s \<in> set slices. length s = D"
  shows "mean_over_time slices =
     map (\<lambda>k. sum_list (map (\<lambda>s. s ! k) slices) / real (length slices)) [0 ..< D]"
proof -
  obtain s ss where sl: "slices = s # ss" using assms(1) by (cases slices) auto
  have "\<forall>x \<in> set ss. length x = length s" and D: "length s = D"
    using assms(2) sl by auto
  from foldl_map2_add [OF this(1)] D show ?thesis
    unfolding mean_over_time_def sl by (simp add: comp_def)
qed

text \<open>
  C2. When the slicing and the preparation for column \<open>c\<close> succeed, the rows selected
  on each side are the rows of that side whose mask entry for \<open>c\<close> is true, in order;
  each of them is inside the mask matrix and has \<open>Y_mask[r, c]\<close> true. The body fits
  on the time means and binarised labels of exactly the selected train rows, predicts
  on those and on the time means of exactly the selected test rows, and scores the
  test predictions against the binarised labels of exactly the selected test rows:
  nothing of any other row reaches fit, predict or the scoring.
\<close>

theorem only_annotated_rows_used:
  assumes "cell_25 data idx = Inr arrays" and "prepare_instrument arrays c = Inr d"
  shows "\<exists>rows_train rows_test x_train y_train x_test y_test.
      rows_train = [r \<leftarrow> idx_train idx. Y_mask data ! r ! c]
    \<and> rows_test = [r \<leftarrow> idx_test idx. Y_mask data ! r ! c]
    \<and> (\<forall>r \<in> set rows_train \<union> set rows_test.
          r < length (Y_mask data) \<and> c < length (Y_mask data ! r) \<and> Y_mask data ! r ! c = True)
    \<and> x_train = map (\<lambda>r. mean_over_time (X data ! r)) rows_train
    \<and> y_train = geq_half (map (\<lambda>r. Y_true data ! r ! c) rows_train)
    \<and> x_test = map (\<lambda>r. mean_over_time (X data ! r)) rows_test
    \<and> y_test = geq_half (map (\<lambda>r. Y_true data ! r ! c) rows_test)
    \<and> X_train_inst_sklearn d = x_train \<and> Y_true_train_inst d = y_train
    \<and> X_test_inst_sklearn d = x_test \<and> Y_true_test_inst d = y_test
    \<and> fit_instrument lib arrays c =
        rbind (xgb_fit lib x_train y_train) (\<lambda>xgb_model.
        rbind (xgb_predict lib xgb_model x_train) (\<lambda>y_pred_train.
        rbind (xgb_predict lib xgb_model x_test) (\<lambda>y_pred_test.
        rbind (prfs lib y_test y_pred_test) (\<lambda>(precision, recall, fscore, support).
        Inr (xgb_model, precision, recall, fscore, support)))))"
proof -
  note r = prepare_instrument_rows [OF assms]
  have fit: "fit_instrument lib arrays c =
        rbind (xgb_fit lib (X_train_inst_sklearn d) (Y_true_train_inst d)) (\<lambda>xgb_model.
        rbind (xgb_predict lib xgb_model (X_train_inst_sklearn d)) (\<lambda>y_pred_train.
        rbind (xgb_predict lib xgb_model (X_test_inst_sklearn d)) (\<lambda>y_pred_test.
        rbind (prfs lib (Y_true_test_inst d) y_pred_test) (\<lambda>(precision, recall, fscore, support).
        Inr (xgb_model, precision, recall, fscore, support)))))"
    by (simp add: fit_instrument_def assms(2) rbind_def)
  have mask: "\<forall>r \<in> set [r \<leftarrow> idx_train idx. Y_mask data ! r ! c] \<union> set [r \<leftarrow> idx_test idx. Y_mask data ! r ! c].
          r < length (Y_mask data) \<and> c < length (Y_mask data ! r) \<and> Y_mask data ! r ! c = True"
    using r(5) by auto
  show ?thesis
    using mask fit unfolding r(1-4) by blast
qed

theorem only_annotated_rows_used_witness:
  "cell_25 demo_data demo_idx = Inr demo_arrays
   \<and> prepare_instrument demo_arrays 1 = Inr demo_inst
   \<and> [r \<leftarrow> idx_train demo_idx. Y_mask demo_data ! r ! 1] = [0, 1]
   \<and> [r \<leftarrow> idx_test demo_idx. Y_mask demo_data ! r ! 1] = [2, 5]
   \<and> X_train_inst_sklearn demo_inst = map (\<lambda>r. mean_over_time (X demo_data ! r)) [0, 1]
   \<and> Y_true_test_inst demo_inst = geq_half (map (\<lambda>r. Y_true demo_data ! r ! 1) [2, 5])
   \<and> fit_instrument lenient_lib demo_arrays 1 =
        rbind (xgb_fit lenient_lib (map (\<lambda>r. mean_over_time (X demo_data ! r)) [0, 1])
                 (geq_half (map (\<lambda>r. Y_true demo_data ! r ! 1) [0, 1]))) (\<lambda>xgb_model.
        rbind (xgb_predict lenient_lib xgb_model (map (\<lambda>r. mean_over_time (X demo_data ! r)) [0, 1])) (\<lambda>y_pred_train.
        rbind (xgb_predict lenient_lib xgb_model (map (\<lambda>r. mean_over_time (X demo_data ! r)) [2, 5])) (\<lambda>y_pred_test.
        rbind (prfs lenient_lib (geq_half (map (\<lambda>r. Y_true demo_data ! r ! 1) [2, 5])) y_pred_test)
          (\<lambda>(precision, recall, fscore, support).
        Inr (xgb_model, precision, recall, fscore, support)))))"
proof -
  have rows: "[r \<leftarrow> idx_train demo_idx. Y_mask demo_data ! r ! 1] = [0, 1]"
    "[r \<leftarrow> idx_test demo_idx. Y_mask demo_data ! r ! 1] = [2, 5]"
    by (simp_all add: demo_idx_def demo_data_def)
  from only_annotated_rows_used [OF demo_cell_25 demo_prepare, of lenient_lib]
  have "X_train_inst_sklearn demo_inst = map (\<lambda>r. mean_over_time (X demo_data ! r)) [0, 1]"
    and "Y_true_test_inst demo_inst = geq_half (map (\<lambda>r. Y_true demo_data ! r ! 1) [2, 5])"
    and "fit_instrument lenient_lib demo_arrays 1 =
        rbind (xgb_fit lenient_lib (map (\<lambda>r. mean_over_time (X demo_data ! r)) [0, 1])
                 (geq_half (map (\<lambda>r. Y_true demo_data ! r ! 1) [0, 1]))) (\<lambda>xgb_model.
        rbind (xgb_predict lenient_lib xgb_model (map (\<lambda>r. mean_over_time (X demo_data ! r)) [0, 1])) (\<lambda>y_pred_train.
        rbind (xgb_predict lenient_lib xgb_model (map (\<lambda>r. mean_over_time (X demo_data ! r)) [2, 5])) (\<lambda>y_pred_test.
        rbind (prfs lenient_lib (geq_half (map (\<lambda>r. Y_true demo_data ! r ! 1) [2, 5])) y_pred_test)
          (\<lambda>(precision, recall, fscore, support).
        Inr (xgb_model, precision, recall, fscore, support)))))"
    unfolding rows by auto
  with rows demo_cell_25 demo_prepare show ?thesis by blast
qed

text \<open>
  C3. The labels of the selected rows are binarised by \<open>\<ge> 0.5\<close>, on the train side
  and on the test side alike: 0.5 gives true, 0.4999 gives false.
\<close>

theorem labels_thresholded_at_half:
  assumes "cell_25 data idx = Inr arrays" and "prepare_instrument arrays c = Inr d"
  shows "Y_true_train_inst d = map (\<lambda>r. Y_true data ! r ! c \<ge> 0.5) [r \<leftarrow> idx_train idx. Y_mask data ! r ! c]
    \<and> Y_true_test_inst d = map (\<lambda>r. Y_true data ! r ! c \<ge> 0.5) [r \<leftarrow> idx_test idx. Y_mask data ! r ! c]
    \<and> geq_half [p] = [p \<ge> 0.5]
    \<and> geq_half [0.5, 0.4999] = [True, False]"
  using prepare_instrument_rows(2,4) [OF assms] by (simp add: geq_half_def comp_def)

theorem labels_thresholded_at_half_witness:
  "cell_25 demo_data demo_idx = Inr demo_arrays
   \<and> prepare_instrument demo_arrays 1 = Inr demo_inst
   \<and> map (\<lambda>r. Y_true demo_data ! r ! 1) [r \<leftarrow> idx_test demo_idx. Y_mask demo_data ! r ! 1] = [0.5, 0.4999]
   \<and> Y_true_test_inst demo_inst = [True, False]"
proof -
  have rows: "[r \<leftarrow> idx_test demo_idx. Y_mask demo_data ! r ! 1] = [2, 5]"
    by (simp add: demo_idx_def demo_data_def)
  have labels: "map (\<lambda>r. Y_true demo_data ! r ! 1) [2, 5] = [0.5, 0.4999]"
    by (simp add: demo_data_def)
  from labels_thresholded_at_half [OF demo_cell_25 demo_prepare]
  have "Y_true_test_inst demo_inst = map (\<lambda>r. Y_true demo_data ! r ! 1 \<ge> 0.5) [2, 5]"
    unfolding rows by blast
  also have "\<dots> = [True, False]"
    by (simp add: demo_data_def)
  finally show ?thesis
    using demo_cell_25 demo_prepare rows labels by simp
qed

text \<open>
  C4. For a bundle whose clips have at least one time slice and \<open>D\<close> features per
  slice, the reduced vector of a selected row has \<open>D\<close> entries, entry \<open>k\<close> being the
  sum of the row's slices at \<open>k\<close> divided by the number of slices. The slices
  \<open>[1,1]\<close> and \<open>[3,3]\<close> reduce to \<open>[2,2]\<close>.
\<close>

theorem features_are_time_means:
  assumes "cell_25 data idx = Inr arrays" and "prepare_instrument arrays c = Inr d"
    and shape: "\<forall>r \<in> set (idx_train idx) \<union> set (idx_test idx).
                  X data ! r \<noteq> [] \<and> (\<forall>s \<in> set (X data ! r). length s = D)"
  shows "X_train_inst_sklearn d =
           map (\<lambda>r. map (\<lambda>k. sum_list (map (\<lambda>s. s ! k) (X data ! r)) / real (length (X data ! r))) [0 ..< D])
             [r \<leftarrow> idx_train idx. Y_mask data ! r ! c]
    \<and> X_test_inst_sklearn d =
           map (\<lambda>r. map (\<lambda>k. sum_list (map (\<lambda>s. s ! k) (X data ! r)) / real (length (X data ! r))) [0 ..< D])
             [r \<leftarrow> idx_test idx. Y_mask data ! r ! c]
    \<and> mean_over_time [[1, 1], [3, 3]] = [2, 2]"
proof -
  have m: "mean_over_time (X data ! r) =
      map (\<lambda>k. sum_list (map (\<lambda>s. s ! k) (X data ! r)) / real (length (X data ! r))) [0 ..< D]"
    if "r \<in> set (idx_train idx) \<union> set (idx_test idx)" for r
    using shape that by (intro mean_over_time_eq) auto
  have ex: "mean_over_time [[1, 1], [3, 3]] = [2, 2]"
    by (simp add: mean_over_time_def)
  show ?thesis
    unfolding prepare_instrument_rows(1,3) [OF assms(1,2)]
    using m ex by auto
qed

theorem features_are_time_means_witness:
  "cell_25 demo_data demo_idx = Inr demo_arrays
   \<and> prepare_instrument demo_arrays 1 = Inr demo_inst
   \<and> X demo_data ! 0 = [[1, 1], [3, 3]]
   \<and> [r \<leftarrow> idx_train demo_idx. Y_mask demo_data ! r ! 1] = [0, 1]
   \<and> X_train_inst_sklearn demo_inst = [[2, 2], [3, 6]]"
proof -
  have shape: "\<forall>r \<in> set (idx_train demo_idx) \<union> set (idx_test demo_idx).
                  X demo_data ! r \<noteq> [] \<and> (\<forall>s \<in> set (X demo_data ! r). length s = 2)"
    by (simp add: demo_idx_def demo_data_def)
  have rows: "[r \<leftarrow> idx_train demo_idx. Y_mask demo_data ! r ! 1] = [0, 1]"
    by (simp add: demo_idx_def demo_data_def)
  have row0: "X demo_data ! 0 = [[1, 1], [3, 3]]"
    by (simp add: demo_data_def)
  from features_are_time_means [OF demo_cell_25 demo_prepare shape]
  have "X_train_inst_sklearn demo_inst =
      map (\<lambda>r. map (\<lambda>k. sum_list (map (\<lambda>s. s ! k) (X demo_data ! r)) / real (length (X demo_data ! r))) [0 ..< 2]) [0, 1]"
    unfolding rows by blast
  also have "\<dots> = [[2, 2], [3, 6]]"
    by (simp add: demo_data_def numeral_2_eq_2)
  finally show ?thesis
    using demo_cell_25 demo_prepare rows row0 by simp
qed

section \<open>Properties of the instrument loop and the report\<close>

lemma foldl_add_sum_list: "foldl (+) a xs = a + sum_list xs" for a :: real
  by (induction xs arbitrary: a) (simp_all add: add.assoc)

lemma np_mean_eq: "np_mean xs = (if xs = [] then None else Some (sum_list xs / real (length xs)))"
  by (simp add: np_mean_def foldl_add_sum_list)

lemma loop_success:
  assumes "\<forall>(n, c) \<in> set ps. map_of cm n = Some c"
    and "instrument_loop lib arrays cm (map fst ps) acc = Inr acc'"
  shows "map Some (precision_lst acc') =
           map Some (precision_lst acc) @ map (\<lambda>(n, c). map_option fst (instrument_scores lib arrays c)) ps
       \<and> map Some (recall_lst acc') =
           map Some (recall_lst acc) @ map (\<lambda>(n, c). map_option (\<lambda>s. fst (snd s)) (instrument_scores lib arrays c)) ps
       \<and> map Some (fscore_lst acc') =
           map Some (fscore_lst acc) @ map (\<lambda>(n, c). map_option (\<lambda>s. snd (snd s)) (instrument_scores lib arrays c)) ps
       \<and> support_lst acc' = support_lst acc"
  using assms
proof (induction ps arbitrary: acc)
  case Nil
  then show ?case by simp
next
  case (Cons p ps)
  obtain n c where p: "p = (n, c)" by (cases p)
  have look: "map_of cm n = Some c" using Cons.prems(1) p by simp
  show ?case
  proof (cases "fit_instrument lib arrays c")
    case (Inl e)
    then show ?thesis using Cons.prems(2) p look by simp
  next
    case (Inr v)
    obtain m pr rc fs sp where v: "v = (m, pr, rc, fs, sp)" by (cases v)
    let ?acc1 = "acc\<lparr>precision_lst := precision_lst acc @ [pr], recall_lst := recall_lst acc @ [rc],
                    fscore_lst := fscore_lst acc @ [fs], models := (models acc)(n \<mapsto> m)\<rparr>"
    have run: "instrument_loop lib arrays cm (map fst ps) ?acc1 = Inr acc'"
      using Cons.prems(2) p look Inr v by simp
    have sc: "instrument_scores lib arrays c = Some (pr, rc, fs)"
      by (simp add: instrument_scores_def Inr v)
    from Cons.IH [OF _ run] Cons.prems(1) show ?thesis
      by (simp add: p sc)
  qed
qed

lemma loop_failure:
  assumes "\<forall>(n, c) \<in> set ps. map_of cm n = Some c"
    and "instrument_loop lib arrays cm (map fst ps) acc = Inl e"
  shows "\<exists>pre n c post. ps = pre @ (n, c) # post
       \<and> (\<forall>(n', c') \<in> set pre. instrument_scores lib arrays c' \<noteq> None)
       \<and> fit_instrument lib arrays c = Inl e"
  using assms
proof (induction ps arbitrary: acc)
  case Nil
  then show ?case by simp
next
  case (Cons p ps)
  obtain n c where p: "p = (n, c)" by (cases p)
  have look: "map_of cm n = Some c" using Cons.prems(1) p by simp
  show ?case
  proof (cases "fit_instrument lib arrays c")
    case (Inl e')
    then have "e' = e" using Cons.prems(2) p look by simp
    with Inl p show ?thesis
      by (intro exI [of _ "[]"] exI [of _ n] exI [of _ c] exI [of _ ps]) simp
  next
    case (Inr v)
    obtain m pr rc fs sp where v: "v = (m, pr, rc, fs, sp)" by (cases v)
    let ?acc1 = "acc\<lparr>precision_lst := precision_lst acc @ [pr], recall_lst := recall_lst acc @ [rc],
                    fscore_lst := fscore_lst acc @ [fs], models := (models acc)(n \<mapsto> m)\<rparr>"
    have run: "instrument_loop lib arrays cm (map fst ps) ?acc1 = Inl e"
      using Cons.prems(2) p look Inr v by simp
    have sc: "instrument_scores lib arrays c \<noteq> None"
      by (simp add: instrument_scores_def Inr v)
    from Cons.IH [OF _ run] Cons.prems(1)
    obtain pre n' c' post where "ps = pre @ (n', c') # post"
      "\<forall>(n', c') \<in> set pre. instrument_scores lib arrays c' \<noteq> None"
      "fit_instrument lib arrays c' = Inl e" by auto
    with sc p show ?thesis
      by (intro exI [of _ "(n, c) # pre"] exI [of _ n'] exI [of _ c'] exI [of _ post]) simp
  qed
qed

lemma loop_abort:
  assumes "\<forall>(n, c) \<in> set (pre @ (n, c) # post). map_of cm n = Some c"
    and "\<forall>(n', c') \<in> set pre. instrument_scores lib arrays c' \<noteq> None"
    and "fit_instrument lib arrays c = Inl e"
  shows "instrument_loop lib arrays cm (map fst (pre @ (n, c) # post)) acc = Inl e"
  using assms
proof (induction pre arbitrary: acc)
  case Nil
  then show ?case by simp
next
  case (Cons p pre)
  obtain n' c' where p: "p = (n', c')" by (cases p)
  have look: "map_of cm n' = Some c'" using Cons.prems(1) p by simp
  have "instrument_scores lib arrays c' \<noteq> None" using Cons.prems(2) p by simp
  then obtain v where Inr: "fit_instrument lib arrays c' = Inr v"
    by (cases "fit_instrument lib arrays c'") (auto simp: instrument_scores_def)
  obtain m pr rc fs sp where v: "v = (m, pr, rc, fs, sp)" by (cases v)
  show ?case
    using Cons.IH Cons.prems by (simp add: p look Inr v)
qed

lemma loop_total:
  assumes "\<forall>(n, c) \<in> set ps. map_of cm n = Some c"
    and "\<forall>(n, c) \<in> set ps. instrument_scores lib arrays c \<noteq> None"
  shows "\<exists>acc'. instrument_loop lib arrays cm (map fst ps) acc = Inr acc'"
proof (cases "instrument_loop lib arrays cm (map fst ps) acc")
  case (Inl e)
  from loop_failure [OF assms(1) Inl] assms(2) show ?thesis
    by (auto simp: instrument_scores_def)
next
  case (Inr acc')
  then show ?thesis by blast
qed

lemma distinct_map_of: "distinct (map fst cm) \<Longrightarrow> \<forall>(n, c) \<in> set cm. map_of cm n = Some c"
  by auto

lemma cell_28_Inr:
  assumes "distinct (map fst cm)" and "cell_28 lib arrays cm = Inr (acc, rep)"
  shows "rep = report acc"
    and "map Some (precision_lst acc) = map (\<lambda>(n, c). map_option fst (instrument_scores lib arrays c)) cm"
    and "map Some (recall_lst acc) = map (\<lambda>(n, c). map_option (\<lambda>s. fst (snd s)) (instrument_scores lib arrays c)) cm"
    and "map Some (fscore_lst acc) = map (\<lambda>(n, c). map_option (\<lambda>s. snd (snd s)) (instrument_scores lib arrays c)) cm"
    and "support_lst acc = []"
proof -
  let ?acc0 = "\<lparr>models = Map.empty, precision_lst = [], recall_lst = [], fscore_lst = [],
                support_lst = []\<rparr> :: ('a, 'b) results"
  from assms(2) have run: "instrument_loop lib arrays cm (map fst cm) ?acc0 = Inr acc"
    and rep: "rep = report acc"
    by (auto simp: cell_28_def rbind_Inr_iff)
  note s = loop_success [OF distinct_map_of [OF assms(1)] run]
  show "rep = report acc" by (rule rep)
  show "map Some (precision_lst acc) = map (\<lambda>(n, c). map_option fst (instrument_scores lib arrays c)) cm"
    using s by simp
  show "map Some (recall_lst acc) = map (\<lambda>(n, c). map_option (\<lambda>s. fst (snd s)) (instrument_scores lib arrays c)) cm"
    using s by simp
  show "map Some (fscore_lst acc) = map (\<lambda>(n, c). map_option (\<lambda>s. snd (snd s)) (instrument_scores lib arrays c)) cm"
    using s by simp
  show "support_lst acc = []" using s by simp
qed

lemma cell_28_Inr_all:
  assumes "distinct (map fst cm)" and "cell_28 lib arrays cm = Inr (acc, rep)"
  shows "\<forall>(n, c) \<in> set cm. instrument_scores lib arrays c \<noteq> None"
proof (rule ccontr)
  assume "\<not> ?thesis"
  then obtain n c where in_cm: "(n, c) \<in> set cm" and none: "instrument_scores lib arrays c = None"
    by (auto simp del: not_None_eq)
  then have "None \<in> set (map (\<lambda>(n, c). map_option fst (instrument_scores lib arrays c)) cm)"
    by force
  then have "None \<in> set (map Some (precision_lst acc))"
    using cell_28_Inr(2) [OF assms] by simp
  then show False by auto
qed

lemma cell_28_Inl:
  assumes "distinct (map fst cm)" and "cell_28 lib arrays cm = Inl e"
  shows "\<exists>pre n c post. cm = pre @ (n, c) # post
       \<and> (\<forall>(n', c') \<in> set pre. instrument_scores lib arrays c' \<noteq> None)
       \<and> fit_instrument lib arrays c = Inl e"
proof -
  let ?acc0 = "\<lparr>models = Map.empty, precision_lst = [], recall_lst = [], fscore_lst = [],
                support_lst = []\<rparr> :: ('a, 'b) results"
  from assms(2) have "instrument_loop lib arrays cm (map fst cm) ?acc0 = Inl e"
    by (cases "instrument_loop lib arrays cm (map fst cm) ?acc0") (simp_all add: cell_28_def rbind_def)
  from loop_failure [OF distinct_map_of [OF assms(1)] this] show ?thesis .
qed

lemma cell_28_total:
  assumes "distinct (map fst cm)" and "\<forall>(n, c) \<in> set cm. instrument_scores lib arrays c \<noteq> None"
  shows "\<exists>acc. cell_28 lib arrays cm = Inr (acc, report acc)"
proof -
  let ?acc0 = "\<lparr>models = Map.empty, precision_lst = [], recall_lst = [], fscore_lst = [],
                support_lst = []\<rparr> :: ('a, 'b) results"
  from loop_total [OF distinct_map_of [OF assms(1)] assms(2), of ?acc0]
  obtain acc where "instrument_loop lib arrays cm (map fst cm) ?acc0 = Inr acc" by blast
  then have "cell_28 lib arrays cm = Inr (acc, report acc)"
    by (simp add: cell_28_def rbind_def)
  then show ?thesis by blast
qed

lemma length_map_Some: "map Some xs = map f ys \<Longrightarrow> length xs = length ys"
  by (metis length_map)

lemma demo_cell_28_lenient:
  "cell_28 lenient_lib demo_arrays demo_class_map = Inr (demo_results, Some (5 / 8), Some (3 / 4), Some (2 / 3))"
  unfolding cell_28_def demo_class_map_def
  by (simp add: demo_lenient_0 demo_lenient_1 [unfolded One_nat_def] rbind_def report_def np_mean_def
      demo_results_def)

lemma demo_notebook_strict:
  "notebook strict_lib demo_data demo_class_map demo_train_set demo_test_set
     = Inl (LibraryError ''fit: the labels hold a single class'')"
  unfolding notebook_def demo_cell_24
  by (simp add: demo_cell_25 rbind_def cell_28_def demo_class_map_def demo_strict_0)

text \<open>
  C5. When cell 28 completes on a non-empty class map, the three lists hold the
  precision, recall and F-score of each class, in class order, and each printed
  average is the sum of its list divided by the number of classes. The support that
  the scoring returns is not used: \<open>support_lst\<close> stays empty.
\<close>

theorem headline_is_unweighted_mean:
  assumes "cell_28 lib arrays cm = Inr (acc, P, R, F)"
    and "distinct (map fst cm)" and "cm \<noteq> []"
  shows "map Some (precision_lst acc) = map (\<lambda>(n, c). map_option fst (instrument_scores lib arrays c)) cm
    \<and> map Some (recall_lst acc) = map (\<lambda>(n, c). map_option (\<lambda>s. fst (snd s)) (instrument_scores lib arrays c)) cm
    \<and> map Some (fscore_lst acc) = map (\<lambda>(n, c). map_option (\<lambda>s. snd (snd s)) (instrument_scores lib arrays c)) cm
    \<and> support_lst acc = []
    \<and> P = Some (sum_list (precision_lst acc) / real (length cm))
    \<and> R = Some (sum_list (recall_lst acc) / real (length cm))
    \<and> F = Some (sum_list (fscore_lst acc) / real (length cm))"
proof -
  note r = cell_28_Inr [OF assms(2) assms(1)]
  have len: "length (precision_lst acc) = length cm" "length (recall_lst acc) = length cm"
    "length (fscore_lst acc) = length cm"
    using r(2,3,4) by (auto dest: length_map_Some)
  then have ne: "precision_lst acc \<noteq> []" "recall_lst acc \<noteq> []" "fscore_lst acc \<noteq> []"
    using assms(3) by auto
  have "(P, R, F) = report acc" by (rule r(1))
  then have "P = Some (sum_list (precision_lst acc) / real (length cm))"
    and "R = Some (sum_list (recall_lst acc) / real (length cm))"
    and "F = Some (sum_list (fscore_lst acc) / real (length cm))"
    using ne len by (simp_all add: report_def np_mean_eq)
  with r(2,3,4,5) show ?thesis by blast
qed

theorem headline_is_unweighted_mean_witness:
  "cell_28 lenient_lib demo_arrays demo_class_map = Inr (demo_results, Some (5 / 8), Some (3 / 4), Some (2 / 3))
   \<and> distinct (map fst demo_class_map) \<and> demo_class_map \<noteq> []
   \<and> precision_lst demo_results = [1, 1 / 4]
   \<and> Some (5 / 8) = Some (sum_list (precision_lst demo_results) / real (length demo_class_map))
   \<and> Some (3 / 4) = Some (sum_list (recall_lst demo_results) / real (length demo_class_map))
   \<and> Some (2 / 3) = Some (sum_list (fscore_lst demo_results) / real (length demo_class_map))"
proof -
  have d: "distinct (map fst demo_class_map)" and ne: "demo_class_map \<noteq> []"
    by (simp_all add: demo_class_map_def)
  have p: "precision_lst demo_results = [1, 1 / 4]" by (simp add: demo_results_def)
  from headline_is_unweighted_mean [OF demo_cell_28_lenient d ne] demo_cell_28_lenient d ne p
  show ?thesis by blast
qed

text \<open>
  C7. A degenerate class is not skipped. Column 0 of the small bundle has only true
  labels; with an estimator that refuses single-class labels the whole run ends with
  the estimator's exception, before column 1 is looked at.
\<close>

theorem degenerate_class_aborts_counterexample:
  "notebook strict_lib demo_data demo_class_map demo_train_set demo_test_set
     = Inl (LibraryError ''fit: the labels hold a single class'')"
  by (rule demo_notebook_strict)

text \<open>
  C7, as the code has it. The loop body has no guard. Either cell 28 raises, and then
  the exception is the one the body raised for the first class whose body raises; or
  it completes, and then no class raised and every class of the class map has one
  entry in each of the three lists, from which the averages are taken.
\<close>

theorem no_guard_for_degenerate_class:
  assumes "distinct (map fst cm)"
  shows "case cell_28 lib arrays cm of
           Inl e \<Rightarrow>
             \<exists>pre n c post. cm = pre @ (n, c) # post
               \<and> (\<forall>(n', c') \<in> set pre. instrument_scores lib arrays c' \<noteq> None)
               \<and> fit_instrument lib arrays c = Inl e
         | Inr (acc, rep) \<Rightarrow>
             rep = report acc
               \<and> length (precision_lst acc) = length cm
               \<and> length (recall_lst acc) = length cm
               \<and> length (fscore_lst acc) = length cm
               \<and> (\<forall>(n, c) \<in> set cm. instrument_scores lib arrays c \<noteq> None)"
proof (cases "cell_28 lib arrays cm")
  case (Inl e)
  with cell_28_Inl [OF assms Inl] show ?thesis by simp
next
  case (Inr v)
  obtain acc rep where v: "v = (acc, rep)" by (cases v)
  note run = Inr [unfolded v]
  note r = cell_28_Inr [OF assms run]
  have "length (precision_lst acc) = length cm" "length (recall_lst acc) = length cm"
    "length (fscore_lst acc) = length cm"
    using r(2,3,4) by (auto dest: length_map_Some)
  with r(1) cell_28_Inr_all [OF assms run] show ?thesis
    by (simp add: run)
qed

theorem no_guard_for_degenerate_class_witness:
  "distinct (map fst demo_class_map)
   \<and> prepare_instrument demo_arrays 0 =
       Inr \<lparr>X_train_inst_sklearn = [[2, 2], [3, 6], [8, 8]], Y_true_train_inst = [True, True, True],
            X_test_inst_sklearn = [[0, 1], [9, 9], [6, 7]], Y_true_test_inst = [True, True, True]\<rparr>
   \<and> cell_28 lenient_lib demo_arrays demo_class_map = Inr (demo_results, Some (5 / 8), Some (3 / 4), Some (2 / 3))
   \<and> length (precision_lst demo_results) = length demo_class_map
   \<and> instrument_scores lenient_lib demo_arrays 0 \<noteq> None"
proof -
  have d: "distinct (map fst demo_class_map)" by (simp add: demo_class_map_def)
  have m: "(''accordion'', 0) \<in> set demo_class_map" by (simp add: demo_class_map_def)
  from no_guard_for_degenerate_class [OF d, of lenient_lib demo_arrays]
  have "length (precision_lst demo_results) = length demo_class_map"
    and "\<forall>(n, c) \<in> set demo_class_map. instrument_scores lenient_lib demo_arrays c \<noteq> None"
    unfolding demo_cell_28_lenient by simp_all
  with m d demo_prepare0 demo_cell_28_lenient show ?thesis by blast
qed

lemma sum_list_mset_eq:
  fixes xs ys :: "real list"
  assumes "mset xs = mset ys"
  shows "sum_list xs = sum_list ys"
  using assms by (metis sum_mset_sum_list)

lemma mset_map_Some_eq:
  assumes "map Some xs = map f as" "map Some ys = map f bs" "mset as = mset bs"
  shows "mset xs = mset ys"
proof -
  have "map the (map Some xs) = map the (map f as)" "map the (map Some ys) = map the (map f bs)"
    using assms(1,2) by simp_all
  then have "xs = map (\<lambda>a. the (f a)) as" "ys = map (\<lambda>a. the (f a)) bs"
    by (simp_all add: comp_def)
  then show ?thesis using assms(3) by (metis mset_map)
qed

subsection \<open>The order of the classes\<close>

lemma f64_round_pos_numeral:
  "f64_round_pos (numeral k) x =
     (if 2 ^ 53 \<le> x then 2 * f64_round_pos (pred_numeral k) (x / 2)
      else if x < 2 ^ 52 then f64_round_pos (pred_numeral k) (2 * x) / 2
      else of_int (round_half_even x))"
  by (simp add: numeral_eq_Suc)

lemmas f64_eval = f64_round_def f64_round_pos_numeral round_half_even_def

lemma order_prepare:
  "prepare_instrument order_arrays 0 =
     Inr \<lparr>X_train_inst_sklearn = [[1], [2]], Y_true_train_inst = [True, True],
          X_test_inst_sklearn = [[3], [4]], Y_true_test_inst = [True, True]\<rparr>"
  "prepare_instrument order_arrays (Suc 0) =
     Inr \<lparr>X_train_inst_sklearn = [[1], [2]], Y_true_train_inst = [True, True],
          X_test_inst_sklearn = [[3], [4]], Y_true_test_inst = [True, True]\<rparr>"
  "prepare_instrument order_arrays 2 =
     Inr \<lparr>X_train_inst_sklearn = [[1], [2]], Y_true_train_inst = [True, True],
          X_test_inst_sklearn = [[3], [4]], Y_true_test_inst = [True, False]\<rparr>"
  by (simp_all add: prepare_instrument_def column_def mask_rows_def mask_rows_column_def rbind_def
      mean_axis1_def mean_over_time_def geq_half_def order_arrays_def)

lemma order_fit:
  "fit_instrument lenient_lib_f64 order_arrays 0 = Inr (True, 1, 1, 1, ())"
  "fit_instrument lenient_lib_f64 order_arrays (Suc 0) = Inr (True, 1, 1, 1, ())"
  "fit_instrument lenient_lib_f64 order_arrays 2 =
     Inr (True, 1 / 4, 1 / 2, 6004799503160661 / 18014398509481984, ())"
  unfolding fit_instrument_def order_prepare
  by (simp_all add: rbind_def lenient_lib_f64_def majority_fit_def constant_predict_def
      macro_prfs_f64_def macro_prfs_def label_prf_def f64_eval)

lemma order_loop:
  "map_sum id snd (cell_28_f64 lenient_lib_f64 order_arrays order_class_map) =
     Inr (np_mean_f64 [1, 1, 1 / 4], np_mean_f64 [1, 1, 1 / 2],
          np_mean_f64 [1, 1, 6004799503160661 / 18014398509481984])"
  "map_sum id snd (cell_28_f64 lenient_lib_f64 order_arrays (rev order_class_map)) =
     Inr (np_mean_f64 [1 / 4, 1, 1], np_mean_f64 [1 / 2, 1, 1],
          np_mean_f64 [6004799503160661 / 18014398509481984, 1, 1])"
  unfolding cell_28_f64_def order_class_map_def
  by (simp_all add: order_fit rbind_def report_f64_def)

lemma order_means:
  "np_mean_f64 [1, 1, 1 / 4] = Some (3 / 4)"
  "np_mean_f64 [1 / 4, 1, 1] = Some (3 / 4)"
  "np_mean_f64 [1, 1, 1 / 2] = Some (7505999378950827 / 9007199254740992)"
  "np_mean_f64 [1 / 2, 1, 1] = Some (7505999378950827 / 9007199254740992)"
  "np_mean_f64 [1, 1, 6004799503160661 / 18014398509481984] = Some (7005599420354105 / 9007199254740992)"
  "np_mean_f64 [6004799503160661 / 18014398509481984, 1, 1] = Some (875699927544263 / 1125899906842624)"
  by (simp_all add: np_mean_f64_def f64_eval)

text \<open>
  Adding the first number to the sum of the other two, instead of adding from left to
  right, gives the same two values the other way round: the two orders of the classes
  still differ.
\<close>

lemma order_means_first_to_rest:
  "f64_round (f64_round (1 + f64_round (1 + 6004799503160661 / 18014398509481984)) / 3)
     = 875699927544263 / 1125899906842624"
  "f64_round (f64_round (6004799503160661 / 18014398509481984 + f64_round (1 + 1)) / 3)
     = 7005599420354105 / 9007199254740992"
  by (simp_all add: f64_eval)

lemma cell_28_f64_iff:
  "(cell_28_f64 lib arrays cm = Inr (acc, report_f64 acc)) = (cell_28 lib arrays cm = Inr (acc, report acc))"
  by (cases "instrument_loop lib arrays cm (map fst cm)
        \<lparr>models = Map.empty, precision_lst = [], recall_lst = [], fscore_lst = [], support_lst = []\<rparr>")
     (auto simp: cell_28_f64_def cell_28_def rbind_def)

text \<open>
  C9. The printed averages are not identical under every order of the classes. With
  the three F-scores 1, 1 and the float64 nearest to 1/3, adding in class-map order
  and adding in the reverse order round differently, and the two averages differ in
  the last place (0.7777777777777778 and 0.7777777777777777).
\<close>

theorem class_order_counterexample:
  "map_sum id snd (cell_28_f64 lenient_lib_f64 order_arrays order_class_map) =
     Inr (Some (3 / 4), Some (7505999378950827 / 9007199254740992),
          Some (7005599420354105 / 9007199254740992))
   \<and> map_sum id snd (cell_28_f64 lenient_lib_f64 order_arrays (rev order_class_map)) =
     Inr (Some (3 / 4), Some (7505999378950827 / 9007199254740992),
          Some (875699927544263 / 1125899906842624))
   \<and> map_sum id snd (cell_28_f64 lenient_lib_f64 order_arrays (rev order_class_map))
       \<noteq> map_sum id snd (cell_28_f64 lenient_lib_f64 order_arrays order_class_map)"
  unfolding order_loop order_means by simp

text \<open>
  C9, as the code has it. For a class map with distinct names and any reordering of
  it, cell 28 completes on the one exactly when it completes on the other. When it
  does, the precision, recall and F-score lists of the two runs hold the same values
  with the same multiplicities, in the float64 run as well, and the three averages are
  equal when the sums are taken exactly.
\<close>

theorem class_order_invariance:
  assumes "distinct (map fst cm)" and "mset cm' = mset cm"
  shows "case cell_28 lib arrays cm of
           Inl e \<Rightarrow> \<exists>e'. cell_28 lib arrays cm' = Inl e'
         | Inr (acc, rep) \<Rightarrow>
             \<exists>acc'. cell_28 lib arrays cm' = Inr (acc', rep)
               \<and> mset (precision_lst acc') = mset (precision_lst acc)
               \<and> mset (recall_lst acc') = mset (recall_lst acc)
               \<and> mset (fscore_lst acc') = mset (fscore_lst acc)
               \<and> cell_28_f64 lib arrays cm = Inr (acc, report_f64 acc)
               \<and> cell_28_f64 lib arrays cm' = Inr (acc', report_f64 acc')"
proof -
  have "mset (map fst cm') = mset (map fst cm)" using assms(2) by (metis mset_map)
  then have d': "distinct (map fst cm')" using assms(1) by (metis mset_eq_imp_distinct_iff)
  have sets: "set cm' = set cm" using assms(2) by (metis set_mset_mset)
  show ?thesis
  proof (cases "cell_28 lib arrays cm")
    case (Inl e)
    from cell_28_Inl [OF assms(1) Inl] obtain pre n c post where
      cm: "cm = pre @ (n, c) # post" and fail: "fit_instrument lib arrays c = Inl e"
      by blast
    have "(n, c) \<in> set cm'" "instrument_scores lib arrays c = None"
      by (simp_all add: sets cm fail instrument_scores_def)
    then have bad: "\<not> (\<forall>(n, c) \<in> set cm'. instrument_scores lib arrays c \<noteq> None)"
      by (metis (mono_tags, lifting) case_prodD)
    have "\<exists>e'. cell_28 lib arrays cm' = Inl e'"
    proof (cases "cell_28 lib arrays cm'")
      case (Inr v)
      obtain acc' rep' where "v = (acc', rep')" by (cases v)
      with cell_28_Inr_all [OF d'] Inr bad show ?thesis by blast
    qed blast
    then show ?thesis by (simp add: Inl)
  next
    case (Inr v)
    obtain acc rep where v: "v = (acc, rep)" by (cases v)
    note run = Inr [unfolded v]
    note r = cell_28_Inr [OF assms(1) run]
    have "\<forall>(n, c) \<in> set cm'. instrument_scores lib arrays c \<noteq> None"
      using cell_28_Inr_all [OF assms(1) run] sets by simp
    from cell_28_total [OF d' this] obtain acc' where
      run': "cell_28 lib arrays cm' = Inr (acc', report acc')" by blast
    note r' = cell_28_Inr [OF d' run']
    have p: "mset (precision_lst acc') = mset (precision_lst acc)"
      by (rule mset_map_Some_eq [OF r'(2) r(2) assms(2)])
    have q: "mset (recall_lst acc') = mset (recall_lst acc)"
      by (rule mset_map_Some_eq [OF r'(3) r(3) assms(2)])
    have f: "mset (fscore_lst acc') = mset (fscore_lst acc)"
      by (rule mset_map_Some_eq [OF r'(4) r(4) assms(2)])
    have same: "np_mean xs = np_mean ys" if "mset xs = mset ys" for xs ys
      using that sum_list_mset_eq [OF that] mset_eq_length [OF that]
      by (auto simp: np_mean_eq)
    have rep: "report acc' = rep"
      using same [OF p] same [OF q] same [OF f] r(1) by (simp add: report_def)
    have f1: "cell_28_f64 lib arrays cm = Inr (acc, report_f64 acc)"
      using run r(1) by (simp add: cell_28_f64_iff)
    have f2: "cell_28_f64 lib arrays cm' = Inr (acc', report_f64 acc')"
      using run' by (simp add: cell_28_f64_iff)
    have "\<exists>acc'. cell_28 lib arrays cm' = Inr (acc', rep)
        \<and> mset (precision_lst acc') = mset (precision_lst acc)
        \<and> mset (recall_lst acc') = mset (recall_lst acc)
        \<and> mset (fscore_lst acc') = mset (fscore_lst acc)
        \<and> cell_28_f64 lib arrays cm = Inr (acc, report_f64 acc)
        \<and> cell_28_f64 lib arrays cm' = Inr (acc', report_f64 acc')"
      using run' rep p q f f1 f2 by (intro exI [of _ acc']) simp
    then show ?thesis by (simp add: run)
  qed
qed

theorem class_order_invariance_witness:
  "distinct (map fst demo_class_map)
   \<and> mset [(''banjo'', 1), (''accordion'', 0)] = mset demo_class_map
   \<and> cell_28 lenient_lib demo_arrays demo_class_map = Inr (demo_results, Some (5 / 8), Some (3 / 4), Some (2 / 3))
   \<and> (\<exists>acc'. cell_28 lenient_lib demo_arrays [(''banjo'', 1), (''accordion'', 0)]
                = Inr (acc', Some (5 / 8), Some (3 / 4), Some (2 / 3))
            \<and> mset (precision_lst acc') = mset (precision_lst demo_results))"
proof -
  have d: "distinct (map fst demo_class_map)" by (simp add: demo_class_map_def)
  have m: "mset [(''banjo'', 1), (''accordion'', 0)] = mset demo_class_map"
    by (simp add: demo_class_map_def)
  from class_order_invariance [OF d m, of lenient_lib demo_arrays]
  have "\<exists>acc'. cell_28 lenient_lib demo_arrays [(''banjo'', 1), (''accordion'', 0)]
                = Inr (acc', Some (5 / 8), Some (3 / 4), Some (2 / 3))
            \<and> mset (precision_lst acc') = mset (precision_lst demo_results)"
    unfolding demo_cell_28_lenient by auto
  with d m demo_cell_28_lenient show ?thesis by blast
qed

end
